theory Spec2Isabelle
  imports Main
begin

section \<open>Data model of tui.h\<close>

text \<open>
  Pointers of the C source are modelled as follows. An owning pointer to a struct is an
  \<open>option\<close> of the struct's value, \<open>None\<close> being \<open>NULL\<close>; an array with its
  element count is a list. A pointer that does not own its target (a back-reference, the
  active menu, the active window, an entry of the tab list) is the target's address, and so
  is an ncurses \<open>WINDOW*\<close> and a function pointer.
\<close>

type_synonym addr = nat
type_synonym WINDOW = nat
type_synonym tui_window_event_t = nat
type_synonym tui_menu_event_t = nat
type_synonym tui_event_t = nat

definition KEY_CTRLC :: int where "KEY_CTRLC = 3"
definition KEY_CTRLZ :: int where "KEY_CTRLZ = 26"
definition KEY_ESC :: int where "KEY_ESC = 27"
definition KEY_TAB :: int where "KEY_TAB = 9"

record tui_rect_t =
  w :: int
  h :: int
  x :: int
  y :: int

datatype tui_color_t =
    TUI_COLOR_NONE
  | TUI_COLOR_BLACK
  | TUI_COLOR_RED
  | TUI_COLOR_GREEN
  | TUI_COLOR_YELLOW
  | TUI_COLOR_BLUE
  | TUI_COLOR_MAGENTA
  | TUI_COLOR_CYAN
  | TUI_COLOR_WHITE

text \<open>The value of an enumerator of \<open>tui_color_t\<close> in an arithmetic expression.\<close>

fun color_value :: "tui_color_t \<Rightarrow> int" where
  "color_value TUI_COLOR_NONE = 0"
| "color_value TUI_COLOR_BLACK = 1"
| "color_value TUI_COLOR_RED = 2"
| "color_value TUI_COLOR_GREEN = 3"
| "color_value TUI_COLOR_YELLOW = 4"
| "color_value TUI_COLOR_BLUE = 5"
| "color_value TUI_COLOR_MAGENTA = 6"
| "color_value TUI_COLOR_CYAN = 7"
| "color_value TUI_COLOR_WHITE = 8"

record tui_border_t =
  fg_color :: tui_color_t
  bg_color :: tui_color_t

datatype tui_parent_type_t = TUI_PARENT_TUI | TUI_PARENT_MENU | TUI_PARENT_WINDOW

datatype tui_pos_t = TUI_POS_START | TUI_POS_CENTER | TUI_POS_END

datatype tui_align_t =
    TUI_ALIGN_START
  | TUI_ALIGN_CENTER
  | TUI_ALIGN_END
  | TUI_ALIGN_BETWEEN
  | TUI_ALIGN_AROUND
  | TUI_ALIGN_EVENLY

text \<open>
  \<open>struct tui_window_t\<close>, the head every window starts with. Its \<open>type\<close> field is
  the constructor of \<open>tui_window\<close> below; the union \<open>parent\<close> is one address, read
  according to \<open>parent_type\<close>.
\<close>

record tui_window_t =
  name :: "string option"
  is_visable :: bool
  is_interact :: bool
  is_locked :: bool
  rect :: tui_rect_t
  window :: "WINDOW option"
  fg_color :: tui_color_t
  bg_color :: tui_color_t
  border :: "tui_border_t option"
  event :: "tui_window_event_t option"
  parent_type :: tui_parent_type_t
  parent :: "addr option"
  tui :: "addr option"

text \<open>
  What a \<open>tui_window_t*\<close> points to: one of \<open>tui_window_parent_t\<close>,
  \<open>tui_window_text_t\<close> and \<open>tui_window_input_t\<close>, told apart by \<open>head.type\<close>. The
  fields follow the structs' order; \<open>children\<close> with \<open>child_count\<close> is the list.
\<close>

datatype tui_window =
    TUI_WINDOW_PARENT (head: tui_window_t) (children: "tui_window option list")
      (is_vertical: bool) (pos: tui_pos_t) (align: tui_align_t)
  | TUI_WINDOW_TEXT (head: tui_window_t) (source_string: "string option")
      (rendered_text: "string option") (pos: tui_pos_t) (align: tui_align_t)
  | TUI_WINDOW_INPUT (head: tui_window_t) (buffer: "string option") (buffer_size: nat)
      (buffer_len: nat) (cursor: nat) (scroll: nat) (is_secret: bool) (is_hidden: bool)
      (pos: tui_pos_t)

record tui_menu_t =
  name :: "string option"
  windows :: "tui_window option list"
  event :: "tui_menu_event_t option"
  tui :: "addr option"

record tui_t =
  w :: int
  h :: int
  menus :: "tui_menu_t option list"
  windows :: "tui_window option list"
  tab_windows :: "addr list"
  menu :: "addr option"
  window :: "addr option"
  color :: int
  event :: "tui_event_t option"
  is_running :: bool

section \<open>The ncurses backend\<close>

text \<open>
  ncurses is not part of the repository. The model is an instrumented backend: it records,
  in order, every call that has an effect on the terminal, it keeps the table of colour pairs
  that \<open>init_pair\<close> writes and \<open>pair_content\<close> reads, and it decides through
  \<open>fails\<close>, from the calls made so far, whether a call reports \<open>ERR\<close>. Nothing is
  assumed about \<open>fails\<close>, about the table the backend starts with, or about the screen
  size. \<open>Attron n\<close> and \<open>Attroff n\<close> stand for \<open>attron(COLOR_PAIR(n))\<close> and
  \<open>attroff(COLOR_PAIR(n))\<close>.
\<close>

datatype call =
    Initscr
  | Noecho
  | Raw
  | Keypad_stdscr
  | Start_color
  | Use_default_colors
  | Init_pair int int int
  | Attron int
  | Attroff int
  | Clear
  | Refresh
  | Endwin
  | Wclear WINDOW
  | Wrefresh WINDOW
  | Delwin WINDOW

record ncurses =
  calls :: "call list"
  pairs :: "int \<Rightarrow> (int \<times> int) option"
  fails :: "call list \<Rightarrow> call \<Rightarrow> bool"
  colors :: bool
  maxx :: int
  maxy :: int

definition OK :: int where "OK = 0"
definition ERR :: int where "ERR = - 1"

text \<open>The status a call would report now, and the backend after the call was made.\<close>

definition status :: "ncurses \<Rightarrow> call \<Rightarrow> int" where
  "status b c = (if fails b (calls b) c then ERR else OK)"

definition issue :: "call \<Rightarrow> ncurses \<Rightarrow> ncurses" where
  "issue c b = b\<lparr>calls := calls b @ [c]\<rparr>"

text \<open>
  \<open>init_pair(pair, f, g)\<close> stores the two colours under \<open>pair\<close> unless it reports
  \<open>ERR\<close>. \<open>pair_content(pair, &f, &g)\<close> is a query: \<open>Some (f, g)\<close> when it returns
  \<open>OK\<close> and writes the two colours, \<open>None\<close> when it returns \<open>ERR\<close>.
  \<open>has_colors()\<close> is a query too.
\<close>

definition init_pair :: "int \<Rightarrow> int \<Rightarrow> int \<Rightarrow> ncurses \<Rightarrow> int \<times> ncurses" where
  "init_pair p f g b =
     (let r = status b (Init_pair p f g);
          b1 = issue (Init_pair p f g) b
      in (r, if r = OK then b1\<lparr>pairs := (pairs b1)(p \<mapsto> (f, g))\<rparr> else b1))"

definition pair_content :: "ncurses \<Rightarrow> int \<Rightarrow> (int \<times> int) option" where
  "pair_content b p = pairs b p"

definition has_colors :: "ncurses \<Rightarrow> bool" where
  "has_colors b = colors b"

text \<open>The colour numbers of ncurses.h.\<close>

definition COLOR_BLACK :: int where "COLOR_BLACK = 0"
definition COLOR_RED :: int where "COLOR_RED = 1"
definition COLOR_GREEN :: int where "COLOR_GREEN = 2"
definition COLOR_YELLOW :: int where "COLOR_YELLOW = 3"
definition COLOR_BLUE :: int where "COLOR_BLUE = 4"
definition COLOR_MAGENTA :: int where "COLOR_MAGENTA = 5"
definition COLOR_CYAN :: int where "COLOR_CYAN = 6"
definition COLOR_WHITE :: int where "COLOR_WHITE = 7"

section \<open>Colours\<close>

definition TUI_COLORS :: "int list" where
  "TUI_COLORS =
     [- 1, COLOR_BLACK, COLOR_RED, COLOR_GREEN, COLOR_YELLOW, COLOR_BLUE, COLOR_MAGENTA,
      COLOR_CYAN, COLOR_WHITE]"



definition tui_color_off ::
  "ncurses \<Rightarrow> tui_t \<Rightarrow> tui_color_t \<Rightarrow> tui_color_t \<Rightarrow> ncurses \<times> tui_t" where
  "tui_color_off b t fg bg =
     (let (fg1, bg1) =
            (case pair_content b (color t) of
               Some (last_fg, last_bg) \<Rightarrow>
                 (if fg = TUI_COLOR_NONE then last_fg + 1 else color_value fg,
                  if bg = TUI_COLOR_NONE then last_bg + 1 else color_value bg)
             | None \<Rightarrow> (color_value fg, color_value bg))
      in (issue (Attroff (fg1 * 9 + bg1)) b, t))"

text \<open>
  \<open>tui_colors_init\<close>: the two \<open>for\<close> loops, the inner one first. The status that
  \<open>init_pair\<close> returns is dropped, as in the source.
\<close>

function tui_colors_init_bg :: "nat \<Rightarrow> nat \<Rightarrow> ncurses \<Rightarrow> ncurses" where
  "tui_colors_init_bg fg_index bg_index b =
     (if bg_index < 9 then
        (let index = fg_index * 9 + bg_index;
             fg_color = TUI_COLORS ! fg_index;
             bg_color = TUI_COLORS ! bg_index
         in tui_colors_init_bg fg_index (bg_index + 1)
              (snd (init_pair (int index) fg_color bg_color b)))
      else b)"
  by pat_completeness auto
termination
  by (relation "measure (\<lambda>(fg_index, bg_index, b). 9 - bg_index)") auto

function tui_colors_init_fg :: "nat \<Rightarrow> ncurses \<Rightarrow> ncurses" where
  "tui_colors_init_fg fg_index b =
     (if fg_index < 9 then
        tui_colors_init_fg (fg_index + 1) (tui_colors_init_bg fg_index 0 b)
      else b)"
  by pat_completeness auto
termination
  by (relation "measure (\<lambda>(fg_index, b). 9 - fg_index)") auto

declare tui_colors_init_bg.simps [simp del]
declare tui_colors_init_fg.simps [simp del]

definition tui_colors_init :: "ncurses \<Rightarrow> ncurses" where
  "tui_colors_init b = tui_colors_init_fg 0 b"

section \<open>Initialisation\<close>

text \<open>
  \<open>tui_init\<close> returns its \<open>int\<close> result and the backend. The calls whose result the
  source drops are issued without looking at their status.
\<close>

definition tui_init :: "ncurses \<Rightarrow> int \<times> ncurses" where
  "tui_init b =
     (let b1 = issue Initscr b;
          b2 = issue Noecho b1;
          b3 = issue Raw b2;
          b4 = issue Keypad_stdscr b3;
          r = status b4 Start_color;
          b5 = issue Start_color b4
      in if r = ERR \<or> \<not> has_colors b5 then (1, issue Endwin b5)
         else
           (let b6 = issue Use_default_colors b5;
                b7 = tui_colors_init b6;
                b8 = issue Clear b7;
                b9 = issue Refresh b8
            in (0, b9)))"

text \<open>
  \<open>tui_create\<close>: \<open>malloc_ok\<close> tells whether \<open>malloc\<close> returns a block;
  \<open>getmaxx(stdscr)\<close> and \<open>getmaxy(stdscr)\<close> read the backend. The fields the compound
  literal does not name are zero.
\<close>

definition tui_create :: "bool \<Rightarrow> ncurses \<Rightarrow> tui_event_t option \<Rightarrow> tui_t option" where
  "tui_create malloc_ok b ev =
     (if \<not> malloc_ok then None
      else Some \<lparr>w = maxx b, h = maxy b, menus = [], windows = [], tab_windows = [],
                 menu = None, window = None, color = 0, event = ev, is_running = False\<rparr>)"

section \<open>Teardown\<close>

text \<open>
  A function that takes a pointer to a pointer gets the pointer's value as an
  \<open>option option\<close>: \<open>None\<close> when the argument itself is \<open>NULL\<close>, \<open>Some None\<close> when it
  points to \<open>NULL\<close>. It returns the backend and the value the caller's pointer holds
  afterwards; \<open>free\<close> of an object is the object's absence from that value.
\<close>

fun tui_ncurses_window_free ::
  "ncurses \<Rightarrow> WINDOW option option \<Rightarrow> ncurses \<times> WINDOW option option" where
  "tui_ncurses_window_free b None = (b, None)"
| "tui_ncurses_window_free b (Some None) = (b, Some None)"
| "tui_ncurses_window_free b (Some (Some wn)) =
     (let b1 = issue (Wclear wn) b;
          b2 = issue (Wrefresh wn) b1;
          b3 = issue (Delwin wn) b2
      in (b3, Some None))"

text \<open>
  \<open>tui_window_text_free\<close>, \<open>tui_window_input_free\<close> and
  \<open>tui_window_parent_free\<close> are called with a pointer that was checked before, so they
  take the window itself and return the caller's pointer. The \<open>switch\<close> of
  \<open>tui_window_free\<close> is the choice of the constructor; a window is one of the three
  kinds, so its \<open>default\<close> branch is not reached. The \<open>for\<close> loop of
  \<open>tui_windows_free\<close> over the array is the recursion \<open>tui_windows_free_loop\<close> over
  the list of its entries; the array it leaves is \<open>NULL\<close> with the count 0, the empty
  list.
\<close>

definition tui_window_text_free :: "ncurses \<Rightarrow> tui_window \<Rightarrow> ncurses \<times> tui_window option" where
  "tui_window_text_free b win =
     (let (b1, wn) = tui_ncurses_window_free b (Some (tui_window_t.window (head win)))
      in (b1, None))"

definition tui_window_input_free :: "ncurses \<Rightarrow> tui_window \<Rightarrow> ncurses \<times> tui_window option" where
  "tui_window_input_free b win =
     (let (b1, wn) = tui_ncurses_window_free b (Some (tui_window_t.window (head win)))
      in (b1, None))"

fun tui_window_parent_free :: "ncurses \<Rightarrow> tui_window \<Rightarrow> ncurses \<times> tui_window option"
  and tui_window_free ::
    "ncurses \<Rightarrow> tui_window option option \<Rightarrow> ncurses \<times> tui_window option option"
  and tui_windows_free_loop :: "ncurses \<Rightarrow> tui_window option list \<Rightarrow> ncurses"
  and tui_windows_free ::
    "ncurses \<Rightarrow> tui_window option list \<Rightarrow> ncurses \<times> tui_window option list"
where
  "tui_window_parent_free b (TUI_WINDOW_PARENT hd0 ch vert p0 a0) =
     (let (b1, ch1) = tui_windows_free b ch;
          (b2, wn) = tui_ncurses_window_free b1 (Some (tui_window_t.window hd0))
      in (b2, None))"
| "tui_window_free b None = (b, None)"
| "tui_window_free b (Some None) = (b, Some None)"
| "tui_window_free b (Some (Some (TUI_WINDOW_PARENT hd0 ch vert p0 a0))) =
     (let (b1, r) = tui_window_parent_free b (TUI_WINDOW_PARENT hd0 ch vert p0 a0)
      in (b1, Some r))"
| "tui_window_free b (Some (Some (TUI_WINDOW_TEXT hd0 str txt p0 a0))) =
     (let (b1, r) = tui_window_text_free b (TUI_WINDOW_TEXT hd0 str txt p0 a0)
      in (b1, Some r))"
| "tui_window_free b (Some (Some (TUI_WINDOW_INPUT hd0 buf bs bl cur scr sec hid p0))) =
     (let (b1, r) = tui_window_input_free b (TUI_WINDOW_INPUT hd0 buf bs bl cur scr sec hid p0)
      in (b1, Some r))"
| "tui_windows_free_loop b [] = b"
| "tui_windows_free_loop b (c # cs) =
     (let (b1, r) = tui_window_free b (Some c) in tui_windows_free_loop b1 cs)"
| "tui_windows_free b ws = (tui_windows_free_loop b ws, [])"

fun tui_menu_free ::
  "ncurses \<Rightarrow> tui_menu_t option option \<Rightarrow> ncurses \<times> tui_menu_t option option" where
  "tui_menu_free b None = (b, None)"
| "tui_menu_free b (Some None) = (b, Some None)"
| "tui_menu_free b (Some (Some m)) =
     (let (b1, ws) = tui_windows_free b (tui_menu_t.windows m) in (b1, Some None))"

text \<open>The loop of \<open>tui_delete\<close> over \<open>menus\<close>.\<close>

fun tui_delete_menus :: "ncurses \<Rightarrow> tui_menu_t option list \<Rightarrow> ncurses" where
  "tui_delete_menus b [] = b"
| "tui_delete_menus b (m # ms) =
     (let (b1, r) = tui_menu_free b (Some m) in tui_delete_menus b1 ms)"

fun tui_delete :: "ncurses \<Rightarrow> tui_t option option \<Rightarrow> ncurses \<times> tui_t option option" where
  "tui_delete b None = (b, None)"
| "tui_delete b (Some None) = (b, Some None)"
| "tui_delete b (Some (Some t)) =
     (let b1 = tui_delete_menus b (menus t);
          (b2, ws) = tui_windows_free b1 (tui_t.windows t)
      in (b2, Some None))"

section \<open>Events\<close>

text \<open>
  \<open>tui_event\<close> returns the session and the handlers it has called, each with the key it
  was given, in the order of the calls. The body of the source function is empty.
\<close>

definition tui_event :: "tui_t \<Rightarrow> int \<Rightarrow> tui_t \<times> (addr \<times> int) list" where
  "tui_event t key = (t, [])"

section \<open>Notions of the specification\<close>

text \<open>
  The specification's \<open>resolve(fg, bg)\<close>: the index \<open>fg * 9 + bg\<close> of a pair of
  enumerators, and the enumerators in the order of their values.
\<close>

definition resolve :: "tui_color_t \<Rightarrow> tui_color_t \<Rightarrow> int" where
  "resolve fg bg = color_value fg * 9 + color_value bg"

definition all_colors :: "tui_color_t list" where
  "all_colors =
     [TUI_COLOR_NONE, TUI_COLOR_BLACK, TUI_COLOR_RED, TUI_COLOR_GREEN, TUI_COLOR_YELLOW,
      TUI_COLOR_BLUE, TUI_COLOR_MAGENTA, TUI_COLOR_CYAN, TUI_COLOR_WHITE]"

text \<open>
  A backend on which no \<open>init_pair\<close> call ever reports \<open>ERR\<close>, and a backend whose
  table holds, under every index \<open>fg * 9 + bg\<close>, the two colours \<open>tui_colors_init\<close>
  registers there.
\<close>

definition accepts_pairs :: "ncurses \<Rightarrow> bool" where
  "accepts_pairs b = (\<forall>hist p f g. \<not> fails b hist (Init_pair p f g))"

definition registered :: "ncurses \<Rightarrow> bool" where
  "registered b =
     (\<forall>c. 0 \<le> c \<and> c < 81 \<longrightarrow> pair_content b c = Some (c div 9 - 1, c mod 9 - 1))"


text \<open>Whether \<open>start_color()\<close> reports \<open>ERR\<close> when \<open>tui_init\<close> calls it.\<close>

definition start_color_fails :: "ncurses \<Rightarrow> bool" where
  "start_color_fails b =
     fails b (calls b @ [Initscr, Noecho, Raw, Keypad_stdscr]) Start_color"

text \<open>
  The calls that release one surface (none for a \<open>NULL\<close> surface), and the surface
  pointers of the nodes of a tree in post-order: the children from left to right, then the
  node itself. A \<open>NULL\<close> entry of an array of windows is no node.
\<close>

definition teardown :: "WINDOW option \<Rightarrow> call list" where
  "teardown s = (case s of None \<Rightarrow> [] | Some wn \<Rightarrow> [Wclear wn, Wrefresh wn, Delwin wn])"

fun postorder :: "tui_window \<Rightarrow> WINDOW option list"
  and postorder_list :: "tui_window option list \<Rightarrow> WINDOW option list"
where
  "postorder (TUI_WINDOW_PARENT hd0 ch vert p0 a0) =
     postorder_list ch @ [tui_window_t.window hd0]"
| "postorder (TUI_WINDOW_TEXT hd0 str txt p0 a0) = [tui_window_t.window hd0]"
| "postorder (TUI_WINDOW_INPUT hd0 buf bs bl cur scr sec hid p0) = [tui_window_t.window hd0]"
| "postorder_list [] = []"
| "postorder_list (None # cs) = postorder_list cs"
| "postorder_list (Some c # cs) = postorder c @ postorder_list cs"

fun postorder_menus :: "tui_menu_t option list \<Rightarrow> WINDOW option list" where
  "postorder_menus [] = []"
| "postorder_menus (None # ms) = postorder_menus ms"
| "postorder_menus (Some m # ms) = postorder_list (tui_menu_t.windows m) @ postorder_menus ms"

fun surfaces :: "WINDOW option list \<Rightarrow> WINDOW list" where
  "surfaces [] = []"
| "surfaces (None # ss) = surfaces ss"
| "surfaces (Some wn # ss) = wn # surfaces ss"

fun is_Delwin :: "call \<Rightarrow> bool" where
  "is_Delwin (Delwin wn) = True"
| "is_Delwin c = False"

section \<open>Concrete backends, sessions and windows\<close>

text \<open>
  A colour terminal on which every call succeeds, a terminal without colours, and a colour
  terminal that refuses every \<open>init_pair\<close>.
\<close>

definition backend0 :: ncurses where
  "backend0 =
     \<lparr>calls = [], pairs = (\<lambda>p. None), fails = (\<lambda>hist c. False), colors = True,
      maxx = 80, maxy = 24\<rparr>"

definition backend_mono :: ncurses where
  "backend_mono = backend0\<lparr>colors := False\<rparr>"

fun is_Init_pair :: "call \<Rightarrow> bool" where
  "is_Init_pair (Init_pair p f g) = True"
| "is_Init_pair c = False"

definition backend_rejecting :: ncurses where
  "backend_rejecting = backend0\<lparr>fails := (\<lambda>hist c. is_Init_pair c)\<rparr>"


text \<open>A window head with the given surface and handler.\<close>

definition head0 :: "WINDOW option \<Rightarrow> tui_window_event_t option \<Rightarrow> tui_window_t" where
  "head0 s ev =
     \<lparr>tui_window_t.name = None, is_visable = True, is_interact = True, is_locked = False,
      rect = \<lparr>tui_rect_t.w = 10, tui_rect_t.h = 1, x = 0, y = 0\<rparr>,
      tui_window_t.window = s, tui_window_t.fg_color = TUI_COLOR_NONE,
      tui_window_t.bg_color = TUI_COLOR_NONE, border = None, tui_window_t.event = ev,
      parent_type = TUI_PARENT_TUI, parent = None, tui_window_t.tui = None\<rparr>"

text \<open>
  A container with surface 1 that holds a text window (surface 2), a container (surface 3)
  with one input window (surface 4), and a \<open>NULL\<close> entry.
\<close>

definition tree0 :: tui_window where
  "tree0 =
     TUI_WINDOW_PARENT (head0 (Some 1) None)
       [Some (TUI_WINDOW_TEXT (head0 (Some 2) None) None None TUI_POS_START TUI_ALIGN_START),
        Some (TUI_WINDOW_PARENT (head0 (Some 3) None)
          [Some (TUI_WINDOW_INPUT (head0 (Some 4) None) None 0 0 0 0 False False TUI_POS_START)]
          True TUI_POS_START TUI_ALIGN_START),
        None]
       False TUI_POS_START TUI_ALIGN_START"

text \<open>
  A running session with two windows at the addresses 10 and 20, both in the tab list, the
  first one active.
\<close>

definition session_tabs :: tui_t where
  "session_tabs =
     \<lparr>w = 80, h = 24, menus = [],
      windows =
        [Some (TUI_WINDOW_TEXT (head0 (Some 1) None) None None TUI_POS_START TUI_ALIGN_START),
         Some (TUI_WINDOW_TEXT (head0 (Some 2) None) None None TUI_POS_START TUI_ALIGN_START)],
      tab_windows = [10, 20], menu = None, window = Some 10, color = 0, event = None,
      is_running = True\<rparr>"

text \<open>
  A running session with the handler 100, whose active menu (at address 5) has the handler
  200 and whose active window (at address 10) has the handler 300.
\<close>

definition session_handlers :: tui_t where
  "session_handlers =
     \<lparr>w = 80, h = 24,
      menus =
        [Some \<lparr>tui_menu_t.name = Some ''main'',
               tui_menu_t.windows =
                 [Some (TUI_WINDOW_TEXT (head0 (Some 1) (Some 300)) None None
                    TUI_POS_START TUI_ALIGN_START)],
               tui_menu_t.event = Some 200, tui_menu_t.tui = None\<rparr>],
      windows = [], tab_windows = [10], menu = Some 5, window = Some 10, color = 0,
      event = Some 100, is_running = True\<rparr>"



section \<open>The backend record under the calls\<close>

lemma issue_fields:
  "calls (issue c b) = calls b @ [c]"
  "pairs (issue c b) = pairs b"
  "fails (issue c b) = fails b"
  "colors (issue c b) = colors b"
  "maxx (issue c b) = maxx b"
  "maxy (issue c b) = maxy b"
  by (simp_all add: issue_def)

lemma init_pair_fields:
  "calls (snd (init_pair p f g b)) = calls b @ [Init_pair p f g]"
  "fails (snd (init_pair p f g b)) = fails b"
  "colors (snd (init_pair p f g b)) = colors b"
  by (simp_all add: init_pair_def Let_def issue_fields)

lemma init_pair_pairs:
  "accepts_pairs b \<Longrightarrow> pairs (snd (init_pair p f g b)) = (pairs b)(p \<mapsto> (f, g))"
  by (simp add: init_pair_def Let_def issue_fields status_def accepts_pairs_def OK_def)

lemma init_pair_accepts: "accepts_pairs (snd (init_pair p f g b)) = accepts_pairs b"
  by (simp add: accepts_pairs_def init_pair_fields)

section \<open>Registration of the colour pairs\<close>

lemma TUI_COLORS_nth: "k < 9 \<Longrightarrow> TUI_COLORS ! k = int k - 1"
proof -
  assume "k < 9"
  then have "k \<in> {0, 1, 2, 3, 4, 5, 6, 7, 8}" by auto
  then show ?thesis
    by (auto simp: TUI_COLORS_def COLOR_BLACK_def COLOR_RED_def COLOR_GREEN_def
        COLOR_YELLOW_def COLOR_BLUE_def COLOR_MAGENTA_def COLOR_CYAN_def COLOR_WHITE_def)
qed

lemma bg_calls:
  "calls (tui_colors_init_bg fg bg b) =
     calls b @
     map (\<lambda>j. Init_pair (int (fg * 9 + j)) (TUI_COLORS ! fg) (TUI_COLORS ! j)) [bg..<9]"
proof (induction fg bg b rule: tui_colors_init_bg.induct)
  case (1 fg bg b)
  show ?case
  proof (cases "bg < 9")
    case True
    then show ?thesis
      using "1.IH" [OF True refl refl refl]
      by (subst tui_colors_init_bg.simps) (simp add: Let_def init_pair_fields upt_conv_Cons)
  next
    case False
    then show ?thesis by (subst tui_colors_init_bg.simps) simp
  qed
qed

lemma bg_fails: "fails (tui_colors_init_bg fg bg b) = fails b"
proof (induction fg bg b rule: tui_colors_init_bg.induct)
  case (1 fg bg b)
  show ?case
  proof (cases "bg < 9")
    case True
    then show ?thesis
      using "1.IH" [OF True refl refl refl]
      by (subst tui_colors_init_bg.simps) (simp add: Let_def init_pair_fields)
  next
    case False
    then show ?thesis by (subst tui_colors_init_bg.simps) simp
  qed
qed

lemma bg_accepts: "accepts_pairs (tui_colors_init_bg fg bg b) = accepts_pairs b"
  by (simp add: accepts_pairs_def bg_fails)

lemma bg_pairs:
  "accepts_pairs b \<Longrightarrow>
   pairs (tui_colors_init_bg fg bg b) (int k) =
     (if fg * 9 + bg \<le> k \<and> k < fg * 9 + 9
      then Some (TUI_COLORS ! fg, TUI_COLORS ! (k - fg * 9)) else pairs b (int k))"
proof (induction fg bg b rule: tui_colors_init_bg.induct)
  case (1 fg bg b)
  show ?case
  proof (cases "bg < 9")
    case True
    have acc: "accepts_pairs
        (snd (init_pair (int (fg * 9 + bg)) (TUI_COLORS ! fg) (TUI_COLORS ! bg) b))"
      using "1.prems" by (simp add: init_pair_accepts)
    have step: "tui_colors_init_bg fg bg b =
        tui_colors_init_bg fg (bg + 1)
          (snd (init_pair (int (fg * 9 + bg)) (TUI_COLORS ! fg) (TUI_COLORS ! bg) b))"
      using True by (subst tui_colors_init_bg.simps) (simp add: Let_def)
    have eq: "k = fg * 9 + bg" if "int k = int fg * 9 + int bg"
      using that by linarith
    show ?thesis
      unfolding step "1.IH" [OF True refl refl refl acc]
      using True "1.prems" by (auto simp add: init_pair_pairs dest: eq)
  next
    case False
    then show ?thesis by (subst tui_colors_init_bg.simps) auto
  qed
qed

lemma fg_fails: "fails (tui_colors_init_fg fg b) = fails b"
proof (induction fg b rule: tui_colors_init_fg.induct)
  case (1 fg b)
  show ?case
  proof (cases "fg < 9")
    case True
    then show ?thesis
      using "1.IH" [OF True]
      by (subst tui_colors_init_fg.simps) (simp add: bg_fails)
  next
    case False
    then show ?thesis by (subst tui_colors_init_fg.simps) simp
  qed
qed

lemma fg_calls:
  "calls (tui_colors_init_fg fg b) =
     calls b @
     concat (map (\<lambda>i. map (\<lambda>j. Init_pair (int (i * 9 + j)) (TUI_COLORS ! i) (TUI_COLORS ! j))
                       [0..<9]) [fg..<9])"
proof (induction fg b rule: tui_colors_init_fg.induct)
  case (1 fg b)
  show ?case
  proof (cases "fg < 9")
    case True
    then show ?thesis
      using "1.IH" [OF True]
      by (subst tui_colors_init_fg.simps) (simp add: bg_calls upt_conv_Cons)
  next
    case False
    then show ?thesis by (subst tui_colors_init_fg.simps) simp
  qed
qed

lemma fg_pairs:
  "accepts_pairs b \<Longrightarrow>
   pairs (tui_colors_init_fg fg b) (int k) =
     (if fg * 9 \<le> k \<and> k < 81
      then Some (TUI_COLORS ! (k div 9), TUI_COLORS ! (k mod 9)) else pairs b (int k))"
proof (induction fg b rule: tui_colors_init_fg.induct)
  case (1 fg b)
  show ?case
  proof (cases "fg < 9")
    case True
    have acc: "accepts_pairs (tui_colors_init_bg fg 0 b)"
      using "1.prems" by (simp add: bg_accepts)
    have step: "tui_colors_init_fg fg b =
        tui_colors_init_fg (fg + 1) (tui_colors_init_bg fg 0 b)"
      using True by (subst tui_colors_init_fg.simps) simp
    have dm: "k div 9 = fg \<and> k mod 9 = k - fg * 9" if "fg * 9 \<le> k" "k < fg * 9 + 9"
      using that by (auto simp: div_nat_eqI mod_nat_eqI)
    show ?thesis
      unfolding step "1.IH" [OF True acc]
      using True "1.prems" dm by (auto simp add: bg_pairs)
  next
    case False
    then show ?thesis by (subst tui_colors_init_fg.simps) auto
  qed
qed

lemma tui_colors_init_fails: "fails (tui_colors_init b) = fails b"
  by (simp add: tui_colors_init_def fg_fails)

lemma tui_colors_init_calls:
  "calls (tui_colors_init b) =
     calls b @
     concat (map (\<lambda>i. map (\<lambda>j. Init_pair (int (i * 9 + j)) (TUI_COLORS ! i) (TUI_COLORS ! j))
                       [0..<9]) [0..<9])"
  by (simp add: tui_colors_init_def fg_calls)



lemma registered_tui_colors_init:
  assumes "accepts_pairs b"
  shows "registered (tui_colors_init b)"
  unfolding registered_def
proof (intro allI impI)
  fix c :: int
  assume c: "0 \<le> c \<and> c < 81"
  define k where "k = nat c"
  have ck: "c = int k" and k: "k < 81" using c by (auto simp: k_def)
  have d: "k div 9 < 9" and m: "k mod 9 < 9" using k by simp_all
  have "pairs (tui_colors_init b) (int k) =
      Some (TUI_COLORS ! (k div 9), TUI_COLORS ! (k mod 9))"
    using assms k by (simp add: tui_colors_init_def fg_pairs)
  then show "pair_content (tui_colors_init b) c = Some (c div 9 - 1, c mod 9 - 1)"
    using d m by (simp add: pair_content_def ck TUI_COLORS_nth zdiv_int zmod_int)
qed

section \<open>Activation and deactivation of a colour pair\<close>

lemma color_value_range: "0 \<le> color_value c \<and> color_value c < 9"
  by (cases c) simp_all












text \<open>
  C9. \<open>tui_color_off\<close> returns the session it was given, so \<open>color\<close> and every other
  field keep their values; the backend receives one call, the \<open>attroff\<close>.
\<close>

theorem tui_color_off_frame:
  "snd (tui_color_off b t fg bg) = t
   \<and> color (snd (tui_color_off b t fg bg)) = color t
   \<and> (\<exists>n. fst (tui_color_off b t fg bg) = issue (Attroff n) b)
   \<and> (\<exists>n. calls (fst (tui_color_off b t fg bg)) = calls b @ [Attroff n])
   \<and> pairs (fst (tui_color_off b t fg bg)) = pairs b"
proof -
  have "\<exists>n. tui_color_off b t fg bg = (issue (Attroff n) b, t)"
    unfolding tui_color_off_def Let_def split_def by (rule exI) (rule refl)
  then obtain n where off: "tui_color_off b t fg bg = (issue (Attroff n) b, t)" ..
  have "fst (tui_color_off b t fg bg) = issue (Attroff n) b"
    and "calls (fst (tui_color_off b t fg bg)) = calls b @ [Attroff n]"
    by (simp_all add: off issue_fields)
  then show ?thesis
    by (auto simp add: off issue_fields)
qed

section \<open>The index of a colour pair\<close>

lemma UNIV_colors: "(UNIV :: tui_color_t set) = set all_colors"
proof -
  have "c \<in> set all_colors" for c
    by (cases c) (simp_all add: all_colors_def)
  then show ?thesis by auto
qed

lemma resolve_product:
  "map (\<lambda>(fg, bg). resolve fg bg) (List.product all_colors all_colors) = map int [0..<81]"
  by code_simp

lemma registration_order:
  "concat (map (\<lambda>i. map (\<lambda>j. Init_pair (int (i * 9 + j)) (TUI_COLORS ! i) (TUI_COLORS ! j))
                    [0..<9]) [0..<9]) =
   map (\<lambda>n. Init_pair (int n) (TUI_COLORS ! (n div 9)) (TUI_COLORS ! (n mod 9))) [0..<81]"
  by code_simp

lemma registration_colors:
  "map (\<lambda>n. Init_pair (int n) (TUI_COLORS ! (n div 9)) (TUI_COLORS ! (n mod 9))) [0..<81] =
   map (\<lambda>(fg, bg). Init_pair (resolve fg bg) (color_value fg - 1) (color_value bg - 1))
     (List.product all_colors all_colors)"
  by code_simp

lemma resolve_bij: "bij_betw (\<lambda>(fg, bg). resolve fg bg) UNIV {0..<81}"
proof -
  let ?f = "\<lambda>(fg, bg). resolve fg bg"
  let ?xs = "List.product all_colors all_colors"
  have u: "(UNIV :: (tui_color_t \<times> tui_color_t) set) = set ?xs"
    using UNIV_colors by auto
  have "distinct (map int [0..<81])"
    by (simp add: distinct_map)
  then have "distinct (map ?f ?xs)"
    by (simp only: resolve_product)
  then have inj: "inj_on ?f (set ?xs)"
    by (simp add: distinct_map)
  have "?f ` set ?xs = set (map ?f ?xs)" by simp
  also have "\<dots> = set (map int [0..<81])" by (simp only: resolve_product)
  also have "\<dots> = {0..<81}"
  proof -
    have "int ` {0..<81} = {0..<81}"
      by (simp add: image_int_atLeastLessThan)
    then show ?thesis by simp
  qed
  finally have img: "?f ` set ?xs = {0..<81}" .
  show ?thesis
    unfolding bij_betw_def u using inj img by blast
qed

lemma tui_init_success_calls:
  assumes "\<not> start_color_fails b" and "has_colors b"
  shows "calls (snd (tui_init b)) =
     calls b @ [Initscr, Noecho, Raw, Keypad_stdscr, Start_color, Use_default_colors] @
     map (\<lambda>n. Init_pair (int n) (TUI_COLORS ! (n div 9)) (TUI_COLORS ! (n mod 9))) [0..<81] @
     [Clear, Refresh]"
proof -
  have "snd (tui_init b) =
      issue Refresh (issue Clear (tui_colors_init (issue Use_default_colors
        (issue Start_color (issue Keypad_stdscr (issue Raw (issue Noecho (issue Initscr b))))))))"
    using assms
    by (simp add: tui_init_def Let_def status_def issue_fields has_colors_def
        start_color_fails_def ERR_def OK_def)
  then show ?thesis
    by (simp only: issue_fields tui_colors_init_calls registration_order append_assoc
        append_Cons append_Nil)
qed

lemma registered_resolve:
  assumes "registered b"
  shows "pair_content b (resolve fg bg) = Some (color_value fg - 1, color_value bg - 1)"
proof -
  have f: "0 \<le> color_value fg \<and> color_value fg < 9" by (rule color_value_range)
  have g: "0 \<le> color_value bg \<and> color_value bg < 9" by (rule color_value_range)
  have "0 \<le> resolve fg bg \<and> resolve fg bg < 81"
    using f g by (simp add: resolve_def)
  then have "pair_content b (resolve fg bg) =
      Some (resolve fg bg div 9 - 1, resolve fg bg mod 9 - 1)"
    using assms by (simp add: registered_def)
  then show ?thesis
    using g by (simp add: resolve_def)
qed

text \<open>
  C2. The index \<open>fg * 9 + bg\<close> of a pair of enumerators (\<open>TUI_COLOR_NONE\<close> is 0, the
  eight colours are 1 to 8) is a bijection from the 81 pairs onto the indices 0 to 80.
  \<open>tui_colors_init\<close> makes exactly 81 \<open>init_pair\<close> calls, for the indices 0, 1, ..., 80
  in this order, and the call for the index \<open>fg * 9 + bg\<close> registers the colours of
  \<open>fg\<close> and \<open>bg\<close>. A \<open>tui_init\<close> that finds colours makes these calls between
  \<open>use_default_colors\<close> and \<open>clear\<close>, and when the backend accepts them the index of
  \<open>(fg, bg)\<close> holds the colours of \<open>fg\<close> and \<open>bg\<close> afterwards.
\<close>

theorem color_pair_addressing:
  "bij_betw (\<lambda>(fg, bg). resolve fg bg) UNIV {0..<81}
   \<and> resolve fg bg = color_value fg * 9 + color_value bg
   \<and> calls (tui_colors_init b) =
       calls b @
       map (\<lambda>n. Init_pair (int n) (TUI_COLORS ! (n div 9)) (TUI_COLORS ! (n mod 9))) [0..<81]
   \<and> calls (tui_colors_init b) =
       calls b @
       map (\<lambda>(fg, bg). Init_pair (resolve fg bg) (color_value fg - 1) (color_value bg - 1))
         (List.product all_colors all_colors)
   \<and> (\<not> start_color_fails b \<and> has_colors b \<longrightarrow>
        calls (snd (tui_init b)) =
          calls b @ [Initscr, Noecho, Raw, Keypad_stdscr, Start_color, Use_default_colors] @
          map (\<lambda>n. Init_pair (int n) (TUI_COLORS ! (n div 9)) (TUI_COLORS ! (n mod 9))) [0..<81] @
          [Clear, Refresh])
   \<and> (accepts_pairs b \<longrightarrow>
        pair_content (tui_colors_init b) (resolve fg bg) =
          Some (color_value fg - 1, color_value bg - 1))"
proof -
  have order: "calls (tui_colors_init b) =
       calls b @
       map (\<lambda>n. Init_pair (int n) (TUI_COLORS ! (n div 9)) (TUI_COLORS ! (n mod 9))) [0..<81]"
    by (simp only: tui_colors_init_calls registration_order)
  have combos: "calls (tui_colors_init b) =
       calls b @
       map (\<lambda>(fg, bg). Init_pair (resolve fg bg) (color_value fg - 1) (color_value bg - 1))
         (List.product all_colors all_colors)"
    by (simp only: order registration_colors)
  have index: "resolve fg bg = color_value fg * 9 + color_value bg"
    by (simp add: resolve_def)
  have startup: "calls (snd (tui_init b)) =
          calls b @ [Initscr, Noecho, Raw, Keypad_stdscr, Start_color, Use_default_colors] @
          map (\<lambda>n. Init_pair (int n) (TUI_COLORS ! (n div 9)) (TUI_COLORS ! (n mod 9))) [0..<81] @
          [Clear, Refresh]"
    if "\<not> start_color_fails b \<and> has_colors b"
    using that tui_init_success_calls [of b] by blast
  have table: "pair_content (tui_colors_init b) (resolve fg bg) =
      Some (color_value fg - 1, color_value bg - 1)"
    if "accepts_pairs b"
    using that by (simp only: registered_resolve registered_tui_colors_init)
  show ?thesis
    using resolve_bij index order combos startup table by blast
qed

theorem color_pair_addressing_witness:
  "\<not> start_color_fails backend0 \<and> has_colors backend0 \<and> accepts_pairs backend0
   \<and> resolve TUI_COLOR_RED TUI_COLOR_BLUE = 23
   \<and> pair_content (tui_colors_init backend0) 23 = Some (1, 4)
   \<and> take 8 (calls (snd (tui_init backend0))) =
       [Initscr, Noecho, Raw, Keypad_stdscr, Start_color, Use_default_colors,
        Init_pair 0 (- 1) (- 1), Init_pair 1 (- 1) 0]
   \<and> length (calls (snd (tui_init backend0))) = 89"
proof -
  note th = color_pair_addressing [of TUI_COLOR_RED TUI_COLOR_BLUE backend0]
  have c: "\<not> start_color_fails backend0 \<and> has_colors backend0"
    by (simp add: start_color_fails_def has_colors_def backend0_def)
  have a: "accepts_pairs backend0" by (simp add: accepts_pairs_def backend0_def)
  have r: "resolve TUI_COLOR_RED TUI_COLOR_BLUE = 23"
    using th by simp
  have "pair_content (tui_colors_init backend0) (resolve TUI_COLOR_RED TUI_COLOR_BLUE) =
      Some (color_value TUI_COLOR_RED - 1, color_value TUI_COLOR_BLUE - 1)"
    using th a by blast
  then have pc: "pair_content (tui_colors_init backend0) 23 = Some (1, 4)"
    by (simp add: r)
  have st: "calls (snd (tui_init backend0)) =
      calls backend0 @ [Initscr, Noecho, Raw, Keypad_stdscr, Start_color, Use_default_colors] @
      map (\<lambda>n. Init_pair (int n) (TUI_COLORS ! (n div 9)) (TUI_COLORS ! (n mod 9))) [0..<81] @
      [Clear, Refresh]"
    using th c by blast
  have e: "calls backend0 = []" by (simp add: backend0_def)
  have t: "TUI_COLORS ! 0 = - 1 \<and> TUI_COLORS ! 1 = 0"
    by (simp add: TUI_COLORS_def COLOR_BLACK_def)
  have u: "[0..<81] = 0 # 1 # [2..<81]"
    by (simp add: upt_conv_Cons)
  have tk: "take 8 (calls (snd (tui_init backend0))) =
       [Initscr, Noecho, Raw, Keypad_stdscr, Start_color, Use_default_colors,
        Init_pair 0 (- 1) (- 1), Init_pair 1 (- 1) 0]"
    unfolding st e u using t by simp
  have ln: "length (calls (snd (tui_init backend0))) = 89"
    unfolding st e by simp
  show ?thesis
    using c a r pc tk ln by blast
qed

section \<open>Initialisation and creation\<close>

lemma tui_init_failure:
  assumes "start_color_fails b \<or> \<not> has_colors b"
  shows "tui_init b =
     (1, b\<lparr>calls := calls b @ [Initscr, Noecho, Raw, Keypad_stdscr, Start_color, Endwin]\<rparr>)"
  using assms
  by (auto simp add: tui_init_def Let_def status_def issue_def has_colors_def
      start_color_fails_def ERR_def OK_def)

lemma tui_init_success:
  assumes "\<not> start_color_fails b" and "has_colors b"
  shows "fst (tui_init b) = 0"
  using assms
  by (auto simp add: tui_init_def Let_def status_def issue_def has_colors_def
      start_color_fails_def ERR_def OK_def)

text \<open>
  C6, as the code has it. When \<open>start_color()\<close> reports \<open>ERR\<close> or \<open>has_colors()\<close>
  is false, \<open>tui_init\<close> returns 1 and the backend has received \<open>initscr\<close>,
  \<open>noecho\<close>, \<open>raw\<close>, \<open>keypad\<close>, \<open>start_color\<close> and, last, \<open>endwin\<close>: no pair was
  registered and the terminal driver is shut down. In every other case it returns 0,
  whatever the \<open>init_pair\<close> calls report.
\<close>

theorem tui_init_result:
  "fst (tui_init b) = (if start_color_fails b \<or> \<not> has_colors b then 1 else 0)
   \<and> (start_color_fails b \<or> \<not> has_colors b \<longrightarrow>
        snd (tui_init b) =
          b\<lparr>calls := calls b @ [Initscr, Noecho, Raw, Keypad_stdscr, Start_color, Endwin]\<rparr>)"
proof (cases "start_color_fails b \<or> \<not> has_colors b")
  case True
  then show ?thesis by (simp add: tui_init_failure [OF True])
next
  case False
  then have "fst (tui_init b) = 0" by (simp add: tui_init_success)
  with False show ?thesis by simp
qed

theorem tui_init_result_witness:
  "\<not> has_colors backend_mono
   \<and> fst (tui_init backend_mono) = 1
   \<and> calls (snd (tui_init backend_mono)) =
       [Initscr, Noecho, Raw, Keypad_stdscr, Start_color, Endwin]
   \<and> pairs (snd (tui_init backend_mono)) = pairs backend_mono
   \<and> \<not> start_color_fails backend0 \<and> has_colors backend0
   \<and> fst (tui_init backend0) = 0"
proof -
  have m: "\<not> has_colors backend_mono"
    by (simp add: has_colors_def backend_mono_def backend0_def)
  have c: "\<not> start_color_fails backend0 \<and> has_colors backend0"
    by (simp add: start_color_fails_def has_colors_def backend0_def)
  show ?thesis
    using m c tui_init_result [of backend_mono] tui_init_result [of backend0]
    by (simp add: backend_mono_def backend0_def)
qed

text \<open>
  The claim C6 as it is written fails on a colour terminal that refuses every
  \<open>init_pair\<close>: no pair can be registered, yet \<open>tui_init\<close> returns 0 and ends with
  \<open>refresh\<close>, not with \<open>endwin\<close>.
\<close>

theorem tui_init_ignores_init_pair:
  "fst (init_pair 0 (- 1) (- 1) backend_rejecting) = ERR
   \<and> fst (tui_init backend_rejecting) = 0
   \<and> last (calls (snd (tui_init backend_rejecting))) = Refresh
   \<and> pair_content (snd (tui_init backend_rejecting)) 0 = None
   \<and> pair_content (snd (tui_init backend_rejecting)) 80 = None"
  by code_simp

text \<open>
  C8. When \<open>malloc\<close> fails \<open>tui_create\<close> returns \<open>NULL\<close>. Otherwise the session it
  returns holds the size of the screen at that moment and the handler it was given; it has
  no menu, no window and no tab window, no active menu, no active window, the colour pair 0,
  and it is not running.
\<close>

theorem tui_create_result:
  "tui_create False b ev = None
   \<and> (\<exists>t. tui_create True b ev = Some t
          \<and> tui_t.w t = maxx b \<and> tui_t.h t = maxy b \<and> tui_t.event t = ev
          \<and> menus t = [] \<and> tui_t.windows t = [] \<and> tab_windows t = []
          \<and> menu t = None \<and> tui_t.window t = None \<and> color t = 0 \<and> \<not> is_running t)
   \<and> (tui_create ok b ev = None \<longleftrightarrow> \<not> ok)"
  by (simp add: tui_create_def)

section \<open>Teardown of windows, menus and the session\<close>

lemma ncurses_window_free_Some:
  "tui_ncurses_window_free b (Some s) = (b\<lparr>calls := calls b @ teardown s\<rparr>, Some None)"
  by (cases s) (simp_all add: teardown_def Let_def issue_def)

lemma leaf_free:
  "tui_window_text_free b win =
     (b\<lparr>calls := calls b @ teardown (tui_window_t.window (head win))\<rparr>, None)"
  "tui_window_input_free b win =
     (b\<lparr>calls := calls b @ teardown (tui_window_t.window (head win))\<rparr>, None)"
  by (simp_all add: tui_window_text_free_def tui_window_input_free_def
      ncurses_window_free_Some)

lemma free_backend:
  "is_TUI_WINDOW_PARENT win \<Longrightarrow>
     fst (tui_window_parent_free b win) =
       b\<lparr>calls := calls b @ concat (map teardown (postorder win))\<rparr>"
  "fst (tui_window_free b p) =
     b\<lparr>calls := calls b @
       (case p of Some (Some k) \<Rightarrow> concat (map teardown (postorder k)) | _ \<Rightarrow> [])\<rparr>"
  "tui_windows_free_loop b ws =
     b\<lparr>calls := calls b @ concat (map teardown (postorder_list ws))\<rparr>"
  "fst (tui_windows_free b ws) =
     b\<lparr>calls := calls b @ concat (map teardown (postorder_list ws))\<rparr>"
proof (induction b win and b p and b ws and b ws
    rule: tui_window_parent_free_tui_window_free_tui_windows_free_loop_tui_windows_free.induct)
  case (1 b hd0 ch vert p0 a0)
  then show ?case
    by (simp add: split_def ncurses_window_free_Some)
next
  case (8 b c cs)
  obtain b1 r where e: "tui_window_free b (Some c) = (b1, r)"
    by (cases "tui_window_free b (Some c)")
  have first: "b1 =
      b\<lparr>calls := calls b @
        (case c of Some k \<Rightarrow> concat (map teardown (postorder k)) | None \<Rightarrow> [])\<rparr>"
    using "8.IH"(1) e by simp
  have rest: "tui_windows_free_loop b1 cs =
      b1\<lparr>calls := calls b1 @ concat (map teardown (postorder_list cs))\<rparr>"
    using "8.IH"(2) [OF refl e [symmetric]] .
  have step: "tui_windows_free_loop b (c # cs) = tui_windows_free_loop b1 cs"
    using e by simp
  have "tui_windows_free_loop b (c # cs) =
      b1\<lparr>calls := calls b1 @ concat (map teardown (postorder_list cs))\<rparr>"
    using step rest by simp
  also have "\<dots> = b\<lparr>calls := calls b @ concat (map teardown (postorder_list (c # cs)))\<rparr>"
    by (cases c) (simp_all add: first)
  finally show ?case .
qed (simp_all add: split_def Let_def leaf_free)

lemma window_free_ptr: "snd (tui_window_free b (Some p)) = Some None"
proof (cases p)
  case None
  then show ?thesis by simp
next
  case (Some k)
  then show ?thesis
    by (cases k) (simp_all add: split_def leaf_free)
qed

lemma window_free_Some:
  "tui_window_free b (Some (Some win)) =
     (b\<lparr>calls := calls b @ concat (map teardown (postorder win))\<rparr>, Some None)"
  using free_backend(2) [of b "Some (Some win)"] window_free_ptr [of b "Some win"]
  by (simp add: prod_eq_iff)

lemma windows_free_result:
  "tui_windows_free b ws =
     (b\<lparr>calls := calls b @ concat (map teardown (postorder_list ws))\<rparr>, [])"
  using free_backend(4) [of b ws] by (simp add: prod_eq_iff)

lemma menu_free_Some:
  "tui_menu_free b (Some (Some m)) =
     (b\<lparr>calls := calls b @ concat (map teardown (postorder_list (tui_menu_t.windows m)))\<rparr>,
      Some None)"
  by (simp add: windows_free_result del: tui_windows_free.simps)

lemma delete_menus_backend:
  "tui_delete_menus b ms = b\<lparr>calls := calls b @ concat (map teardown (postorder_menus ms))\<rparr>"
proof (induction ms arbitrary: b)
  case Nil
  then show ?case by simp
next
  case (Cons m ms)
  show ?case
  proof (cases m)
    case None
    then show ?thesis using Cons.IH [of b] by simp
  next
    case (Some k)
    then show ?thesis
      by (simp add: menu_free_Some Cons.IH del: tui_menu_free.simps)
  qed
qed

lemma delete_Some:
  "tui_delete b (Some (Some t)) =
     (b\<lparr>calls := calls b @ concat (map teardown (postorder_menus (menus t)))
         @ concat (map teardown (postorder_list (tui_t.windows t)))\<rparr>,
      Some None)"
  by (simp add: Let_def windows_free_result delete_menus_backend del: tui_windows_free.simps)

lemma Delwin_teardown:
  "filter is_Delwin (concat (map teardown ss)) = map Delwin (surfaces ss)"
proof (induction ss)
  case Nil
  then show ?case by simp
next
  case (Cons s ss)
  then show ?case by (cases s) (simp_all add: teardown_def)
qed

lemma count_Delwin_teardown:
  "count_list (concat (map teardown ss)) (Delwin wn) = count_list (surfaces ss) wn"
proof (induction ss)
  case Nil
  then show ?case by simp
next
  case (Cons s ss)
  then show ?case by (cases s) (simp_all add: teardown_def)
qed

lemma count_list_distinct: "distinct xs \<Longrightarrow> k \<in> set xs \<Longrightarrow> count_list xs k = 1"
  by (induction xs) (auto simp add: count_list_0_iff)

text \<open>
  C3. Freeing a window releases the surfaces of its subtree in post-order: the backend
  receives, after the calls it had before, \<open>wclear\<close>, \<open>wrefresh\<close> and \<open>delwin\<close> for
  the surface of each node, the nodes taken children first (from left to right) and the node
  itself last. For a container these are the calls of \<open>tui_windows_free\<close> on its children
  followed by the release of its own surface. The \<open>delwin\<close> calls are one per node that has
  a surface, in that order; when the surfaces of the nodes are distinct, each of them is
  deleted exactly once.
\<close>

theorem tui_window_free_postorder:
  "calls (fst (tui_window_free b (Some (Some win)))) =
     calls b @ concat (map teardown (postorder win))
   \<and> calls (fst (tui_windows_free b ws)) =
       calls b @ concat (map teardown (postorder_list ws))
   \<and> calls (fst (tui_window_free b (Some (Some (TUI_WINDOW_PARENT hd0 ch vert p0 a0))))) =
       calls (fst (tui_windows_free b ch)) @ teardown (tui_window_t.window hd0)
   \<and> filter is_Delwin (calls (fst (tui_window_free (b\<lparr>calls := []\<rparr>) (Some (Some win))))) =
       map Delwin (surfaces (postorder win))
   \<and> (distinct (surfaces (postorder win)) \<longrightarrow> wn \<in> set (surfaces (postorder win)) \<longrightarrow>
        count_list (calls (fst (tui_window_free (b\<lparr>calls := []\<rparr>) (Some (Some win)))))
          (Delwin wn) = 1)"
proof -
  have whole: "calls (fst (tui_window_free b (Some (Some win)))) =
      calls b @ concat (map teardown (postorder win))"
    by (simp add: window_free_Some)
  have many: "calls (fst (tui_windows_free b ws)) =
      calls b @ concat (map teardown (postorder_list ws))"
    by (simp add: windows_free_result del: tui_windows_free.simps)
  have parent: "calls (fst (tui_window_free b (Some (Some (TUI_WINDOW_PARENT hd0 ch vert p0 a0))))) =
      calls (fst (tui_windows_free b ch)) @ teardown (tui_window_t.window hd0)"
    by (simp add: window_free_Some windows_free_result del: tui_window_free.simps
        tui_windows_free.simps)
  have fresh: "calls (fst (tui_window_free (b\<lparr>calls := []\<rparr>) (Some (Some win)))) =
      concat (map teardown (postorder win))"
    by (simp add: window_free_Some)
  have dels: "filter is_Delwin (calls (fst (tui_window_free (b\<lparr>calls := []\<rparr>) (Some (Some win))))) =
      map Delwin (surfaces (postorder win))"
    by (simp only: fresh Delwin_teardown)
  have once: "count_list (calls (fst (tui_window_free (b\<lparr>calls := []\<rparr>) (Some (Some win)))))
      (Delwin wn) = 1"
    if "distinct (surfaces (postorder win))" "wn \<in> set (surfaces (postorder win))"
    using that by (simp only: fresh count_Delwin_teardown count_list_distinct)
  show ?thesis
    using whole many parent dels once by blast
qed

theorem tui_window_free_postorder_witness:
  "distinct (surfaces (postorder tree0)) \<and> 3 \<in> set (surfaces (postorder tree0))
   \<and> calls (fst (tui_window_free backend0 (Some (Some tree0)))) =
       [Wclear 2, Wrefresh 2, Delwin 2, Wclear 4, Wrefresh 4, Delwin 4,
        Wclear 3, Wrefresh 3, Delwin 3, Wclear 1, Wrefresh 1, Delwin 1]
   \<and> count_list (calls (fst (tui_window_free (backend0\<lparr>calls := []\<rparr>) (Some (Some tree0)))))
        (Delwin 3) = 1"
proof -
  have po: "postorder tree0 = [Some 2, Some 4, Some 3, Some 1]"
    by (simp add: tree0_def head0_def)
  have d: "distinct (surfaces (postorder tree0))" by (simp add: po)
  have k: "3 \<in> set (surfaces (postorder tree0))" by (simp add: po)
  have e: "calls backend0 = []" by (simp add: backend0_def)
  show ?thesis
    using d k tui_window_free_postorder [of backend0 tree0 "[]" "head0 None None" "[]"
        False TUI_POS_START TUI_ALIGN_START 3]
    by (simp add: po e teardown_def)
qed

text \<open>
  C7. The destruction functions return for every argument. Given \<open>NULL\<close> or a pointer to
  \<open>NULL\<close> they do nothing. Given an object they make every release call of the whole
  subtree and leave \<open>NULL\<close> in the caller's pointer, and this does not depend on what the
  backend reports: \<open>f\<close>, which decides the status of every call, is arbitrary.
\<close>

theorem teardown_infallible:
  "tui_ncurses_window_free b None = (b, None)
   \<and> tui_ncurses_window_free (b\<lparr>fails := f\<rparr>) (Some s) =
       (b\<lparr>fails := f, calls := calls b @ teardown s\<rparr>, Some None)
   \<and> tui_window_free b None = (b, None)
   \<and> tui_window_free b (Some None) = (b, Some None)
   \<and> tui_window_free (b\<lparr>fails := f\<rparr>) (Some (Some win)) =
       (b\<lparr>fails := f, calls := calls b @ concat (map teardown (postorder win))\<rparr>, Some None)
   \<and> tui_menu_free b None = (b, None)
   \<and> tui_menu_free b (Some None) = (b, Some None)
   \<and> tui_menu_free (b\<lparr>fails := f\<rparr>) (Some (Some m)) =
       (b\<lparr>fails := f,
          calls := calls b @ concat (map teardown (postorder_list (tui_menu_t.windows m)))\<rparr>,
        Some None)
   \<and> tui_delete b None = (b, None)
   \<and> tui_delete b (Some None) = (b, Some None)
   \<and> tui_delete (b\<lparr>fails := f\<rparr>) (Some (Some t)) =
       (b\<lparr>fails := f,
          calls := calls b @ concat (map teardown (postorder_menus (menus t)))
            @ concat (map teardown (postorder_list (tui_t.windows t)))\<rparr>,
        Some None)"
proof -
  have surface: "tui_ncurses_window_free (b\<lparr>fails := f\<rparr>) (Some s) =
      (b\<lparr>fails := f, calls := calls b @ teardown s\<rparr>, Some None)"
    by (simp add: ncurses_window_free_Some)
  have win: "tui_window_free (b\<lparr>fails := f\<rparr>) (Some (Some win)) =
      (b\<lparr>fails := f, calls := calls b @ concat (map teardown (postorder win))\<rparr>, Some None)"
    by (simp add: window_free_Some)
  have mn: "tui_menu_free (b\<lparr>fails := f\<rparr>) (Some (Some m)) =
      (b\<lparr>fails := f,
         calls := calls b @ concat (map teardown (postorder_list (tui_menu_t.windows m)))\<rparr>,
       Some None)"
    by (simp add: menu_free_Some del: tui_menu_free.simps)
  have del: "tui_delete (b\<lparr>fails := f\<rparr>) (Some (Some t)) =
      (b\<lparr>fails := f,
         calls := calls b @ concat (map teardown (postorder_menus (menus t)))
           @ concat (map teardown (postorder_list (tui_t.windows t)))\<rparr>,
       Some None)"
    by (simp add: delete_Some del: tui_delete.simps)
  show ?thesis
    using surface win mn del by simp
qed

section \<open>The event router\<close>

text \<open>
  C4. With the tab list \<open>[10, 20]\<close> and the window 10 active, \<open>tui_event\<close> with
  \<open>KEY_TAB\<close> returns the session unchanged: the window 10 is still the active one, not the
  next entry 20. No handler is called.
\<close>

theorem tui_event_tab_stays:
  "tab_windows session_tabs = [10, 20]
   \<and> tui_t.window session_tabs = Some 10
   \<and> tui_event session_tabs KEY_TAB = (session_tabs, [])
   \<and> tui_t.window (fst (tui_event session_tabs KEY_TAB)) = Some 10"
  by (simp add: tui_event_def session_tabs_def)

text \<open>
  C5. With a session handler, a handler of the active menu and a handler of the active
  window in place, \<open>tui_event\<close> with the key 97, which is neither \<open>KEY_TAB\<close> nor one of
  the control keys, calls none of them.
\<close>

theorem tui_event_calls_no_handler:
  "tui_t.event session_handlers = Some 100
   \<and> 97 \<noteq> KEY_TAB \<and> 97 \<noteq> KEY_ESC \<and> 97 \<noteq> KEY_CTRLC \<and> 97 \<noteq> KEY_CTRLZ
   \<and> snd (tui_event session_handlers 97) = []
   \<and> fst (tui_event session_handlers 97) = session_handlers"
  by (simp add: tui_event_def session_handlers_def KEY_TAB_def KEY_ESC_def KEY_CTRLC_def
      KEY_CTRLZ_def)

end
